theory Spec2Isabelle
  imports Main
begin

section \<open>The scalar type\<close>

text \<open>
  Every coordinate of the three point classes is a C++ \<^verbatim>\<open>double\<close>. It is modelled
  as an IEEE-754 binary64 value under the default rounding mode (round to nearest, ties
  to even): a single NaN (payloads are not distinguished), the two infinities, and the
  finite values. A finite value is kept as a sign (\<open>True\<close> is negative) and a magnitude
  counted in units of \<open>2\<^sup>-\<^sup>1\<^sup>0\<^sup>7\<^sup>4\<close>, the smallest positive double, so that every finite
  double is a natural number of units and the sum of two of them is computed exactly
  before it is rounded. \<open>+0\<close> is \<open>Fin False 0\<close>, \<open>-0\<close> is \<open>Fin True 0\<close>, and \<open>1.0\<close>
  is \<open>Fin False (2 ^ 1074)\<close>.
\<close>

datatype double = NaN | Infty bool | Fin bool nat

text \<open>
  The number of low-order bits of a magnitude that do not fit into the 53-bit
  significand.
\<close>

fun excess_bits :: "nat \<Rightarrow> nat" where
  "excess_bits k = (if k < 2 ^ 53 then 0 else Suc (excess_bits (k div 2)))"

text \<open>
  Rounding of an exact magnitude to 53 significant bits, ties to the even significand.
  Magnitudes below \<open>2 ^ 53\<close> units (all subnormals and the smallest normals) are exact.
\<close>

definition round53 :: "nat \<Rightarrow> nat" where
  "round53 k =
     (let sh = excess_bits k; q = k div 2 ^ sh; r = k mod 2 ^ sh
      in if 2 ^ sh < 2 * r \<or> (2 * r = 2 ^ sh \<and> odd q) then (q + 1) * 2 ^ sh else q * 2 ^ sh)"

text \<open>
  The double that an exact result of the given sign and magnitude rounds to. The largest
  finite double is \<open>(2 ^ 53 - 1) * 2 ^ 2045\<close> units; a rounded magnitude of \<open>2 ^ 2098\<close>
  units (\<open>2\<^sup>1\<^sup>0\<^sup>2\<^sup>4\<close>) overflows to infinity.
\<close>

definition rounded :: "bool \<Rightarrow> nat \<Rightarrow> double" where
  "rounded s k = (let r = round53 k in if 2 ^ 2098 \<le> r then Infty s else Fin s r)"

text \<open>C++ \<^verbatim>\<open>a + b\<close> on doubles.\<close>

fun dadd :: "double \<Rightarrow> double \<Rightarrow> double" where
  "dadd NaN b = NaN"
| "dadd a NaN = NaN"
| "dadd (Infty s) (Infty t) = (if s = t then Infty s else NaN)"
| "dadd (Infty s) (Fin t k) = Infty s"
| "dadd (Fin s j) (Infty t) = Infty t"
| "dadd (Fin s j) (Fin t k) =
     (if s = t then rounded s (j + k)
      else if k < j then rounded s (j - k)
      else if j < k then rounded t (k - j)
      else Fin False 0)"

text \<open>C++ unary \<^verbatim>\<open>-a\<close>: the sign bit is flipped.\<close>

fun dneg :: "double \<Rightarrow> double" where
  "dneg NaN = NaN"
| "dneg (Infty s) = Infty (\<not> s)"
| "dneg (Fin s k) = Fin (\<not> s) k"

text \<open>C++ \<^verbatim>\<open>a - b\<close>, which IEEE-754 defines as \<^verbatim>\<open>a + (-b)\<close>.\<close>

definition dsub :: "double \<Rightarrow> double \<Rightarrow> double" where
  "dsub a b = dadd a (dneg b)"

text \<open>\<^verbatim>\<open>fabs\<close>: the sign bit is cleared.\<close>

fun dabs :: "double \<Rightarrow> double" where
  "dabs NaN = NaN"
| "dabs (Infty s) = Infty False"
| "dabs (Fin s k) = Fin False k"

text \<open>The signed number of units of a finite double.\<close>

definition sval :: "bool \<Rightarrow> nat \<Rightarrow> int" where
  "sval s k = (if s then - int k else int k)"

text \<open>C++ \<^verbatim>\<open>a < b\<close>: false as soon as one side is NaN.\<close>

fun dlt :: "double \<Rightarrow> double \<Rightarrow> bool" where
  "dlt NaN b = False"
| "dlt a NaN = False"
| "dlt (Infty s) (Infty t) = (s \<and> \<not> t)"
| "dlt (Infty s) (Fin t k) = s"
| "dlt (Fin s j) (Infty t) = (\<not> t)"
| "dlt (Fin s j) (Fin t k) = (sval s j < sval t k)"

text \<open>C++ \<^verbatim>\<open>a == b\<close>: NaN equals nothing, itself included; \<open>+0\<close> equals \<open>-0\<close>.\<close>

fun deq :: "double \<Rightarrow> double \<Rightarrow> bool" where
  "deq NaN b = False"
| "deq a NaN = False"
| "deq (Infty s) (Infty t) = (s = t)"
| "deq (Infty s) (Fin t k) = False"
| "deq (Fin s j) (Infty t) = False"
| "deq (Fin s j) (Fin t k) = (sval s j = sval t k)"

text \<open>C++ \<^verbatim>\<open>a <= b\<close>.\<close>

definition dle :: "double \<Rightarrow> double \<Rightarrow> bool" where
  "dle a b = (dlt a b \<or> deq a b)"

text \<open>
  The double written as a non-negative integer literal (\<^verbatim>\<open>0\<close>, \<^verbatim>\<open>1.0\<close>, \<^verbatim>\<open>10\<close>); the
  integers below \<open>2 ^ 53\<close> are exactly representable.
\<close>

definition lit :: "nat \<Rightarrow> double" where
  "lit n = Fin False (n * 2 ^ 1074)"

text \<open>
  A magnitude is that of a double when rounding leaves it unchanged and it is below the
  overflow threshold; \<open>finite_double\<close> holds of the finite doubles.
\<close>

definition representable :: "nat \<Rightarrow> bool" where
  "representable k = (k < 2 ^ 2098 \<and> round53 k = k)"

fun finite_double :: "double \<Rightarrow> bool" where
  "finite_double NaN = False"
| "finite_double (Infty s) = False"
| "finite_double (Fin s k) = representable k"

text \<open>
  The signed number of units of a double (0 for the values that are not finite), and the
  pairs of finite doubles whose exact sum is again a double, so that \<open>dadd\<close> does not round.
\<close>

fun units :: "double \<Rightarrow> int" where
  "units NaN = 0"
| "units (Infty s) = 0"
| "units (Fin s k) = sval s k"

fun exact_sum :: "double \<Rightarrow> double \<Rightarrow> bool" where
  "exact_sum (Fin s j) (Fin t k) = representable (nat \<bar>sval s j + sval t k\<bar>)"
| "exact_sum a b = False"

section \<open>Vectors and matrices\<close>

text \<open>
  \<^verbatim>\<open>Vector\<close> and \<^verbatim>\<open>Matrix\<close> come from \<^verbatim>\<open>gtsam/base\<close>. A vector is the list of its
  entries, a matrix the list of its rows.
\<close>

type_synonym Vector = "double list"

type_synonym Matrix = "double list list"

text \<open>
  \<open>InvalidDimension\<close> is the error the specification names; \<open>OutOfBounds\<close> stands for a
  read past the end of a vector.
\<close>

datatype error = InvalidDimension | OutOfBounds

text \<open>
  Modelled from the spec: element read \<^verbatim>\<open>v(i)\<close> of the vector type of
  \<^verbatim>\<open>gtsam/base/Vector.h\<close>, 0-indexed. Indexing past the vector's bound is undefined in
  the reference; the model makes that read the value \<open>Inl OutOfBounds\<close>.
\<close>

definition Vector_at :: "Vector \<Rightarrow> nat \<Rightarrow> error + double" where
  "Vector_at v i = (if i < length v then Inr (v ! i) else Inl OutOfBounds)"

text \<open>
  Modelled from the spec: \<^verbatim>\<open>Vector_(m, ...)\<close> of \<^verbatim>\<open>gtsam/base/Vector.h\<close>, the vector of the
  \<open>m\<close> coordinates that follow, in order (named \<open>mk_Vector\<close> here, as a constant's
  name cannot end in an underscore).
\<close>

definition mk_Vector :: "nat \<Rightarrow> double list \<Rightarrow> Vector" where
  "mk_Vector m xs = take m xs"

text \<open>
  Modelled from the spec: \<^verbatim>\<open>Matrix_(m, n, ...)\<close> of \<^verbatim>\<open>gtsam/base/Matrix.h\<close>, the
  \<open>m\<close> by \<open>n\<close> matrix of the entries that follow, row by row (named \<open>mk_Matrix\<close>).
\<close>

definition mk_Matrix :: "nat \<Rightarrow> nat \<Rightarrow> double list \<Rightarrow> Matrix" where
  "mk_Matrix m n xs = map (\<lambda>i. take n (drop (i * n) xs)) [0..<m]"

text \<open>
  Modelled from the spec: \<^verbatim>\<open>eye(n)\<close> of \<^verbatim>\<open>gtsam/base/Matrix.h\<close>, the \<open>n\<close> by \<open>n\<close>
  identity matrix.
\<close>

definition eye :: "nat \<Rightarrow> Matrix" where
  "eye n = map (\<lambda>i. map (\<lambda>j. if i = j then lit 1 else lit 0) [0..<n]) [0..<n]"

text \<open>
  Modelled from the spec: unary minus of the matrix type, which negates every entry.
\<close>

definition Matrix_uminus :: "Matrix \<Rightarrow> Matrix" where
  "Matrix_uminus m = map (map dneg) m"

section \<open>Point2\<close>

datatype Point2 = Point2 (Point2_x: double) (Point2_y: double)

text \<open>\<^verbatim>\<open>Point2(): x_(0), y_(0)\<close>\<close>

definition Point2_default :: Point2 where
  "Point2_default = Point2 (lit 0) (lit 0)"

text \<open>\<^verbatim>\<open>Point2(const Vector& v) : x_(v(0)), y_(v(1))\<close>\<close>

definition Point2_of_Vector :: "Vector \<Rightarrow> error + Point2" where
  "Point2_of_Vector v =
     (case Vector_at v 0 of
        Inl e \<Rightarrow> Inl e
      | Inr a \<Rightarrow> (case Vector_at v 1 of Inl e \<Rightarrow> Inl e | Inr b \<Rightarrow> Inr (Point2 a b)))"

text \<open>
  Modelled from the spec: \<^verbatim>\<open>Point2::equals\<close> is declared in \<^verbatim>\<open>Point2.h\<close> and defined in a
  file that is not part of the sources at hand; the specification defines equality with a
  tolerance as all corresponding fields differing by less than the tolerance in absolute
  value, which is what \<^verbatim>\<open>StereoPoint2::equals\<close> computes.
\<close>

definition Point2_equals :: "Point2 \<Rightarrow> Point2 \<Rightarrow> double \<Rightarrow> bool" where
  "Point2_equals p q tol =
     (dlt (dabs (dsub (Point2_x p) (Point2_x q))) tol \<and>
      dlt (dabs (dsub (Point2_y p) (Point2_y q))) tol)"

text \<open>The operators of \<^verbatim>\<open>Point2\<close>: unary minus, \<^verbatim>\<open>==\<close>, \<^verbatim>\<open>+\<close> and binary \<^verbatim>\<open>-\<close>.\<close>

definition Point2_uminus :: "Point2 \<Rightarrow> Point2" where
  "Point2_uminus p = Point2 (dneg (Point2_x p)) (dneg (Point2_y p))"

definition Point2_eq :: "Point2 \<Rightarrow> Point2 \<Rightarrow> bool" where
  "Point2_eq p q = (deq (Point2_x p) (Point2_x q) \<and> deq (Point2_y q) (Point2_y q))"

definition Point2_plus :: "Point2 \<Rightarrow> Point2 \<Rightarrow> Point2" where
  "Point2_plus p q =
     Point2 (dadd (Point2_x p) (Point2_x q)) (dadd (Point2_y p) (Point2_y q))"

definition Point2_minus :: "Point2 \<Rightarrow> Point2 \<Rightarrow> Point2" where
  "Point2_minus p q =
     Point2 (dsub (Point2_x p) (Point2_x q)) (dsub (Point2_y p) (Point2_y q))"

text \<open>\<^verbatim>\<open>p.compose(p1)\<close> is \<^verbatim>\<open>*this + p1\<close>; \<^verbatim>\<open>p.inverse()\<close> is \<^verbatim>\<open>Point2(-x_, -y_)\<close>.\<close>

definition Point2_compose :: "Point2 \<Rightarrow> Point2 \<Rightarrow> Point2" where
  "Point2_compose p p1 = Point2_plus p p1"

definition Point2_inverse :: "Point2 \<Rightarrow> Point2" where
  "Point2_inverse p = Point2 (dneg (Point2_x p)) (dneg (Point2_y p))"

definition Point2_Expmap :: "Vector \<Rightarrow> error + Point2" where
  "Point2_Expmap v = Point2_of_Vector v"

definition Point2_Logmap :: "Point2 \<Rightarrow> Vector" where
  "Point2_Logmap dp = mk_Vector 2 [Point2_x dp, Point2_y dp]"

text \<open>
  Modelled from the spec: the two-argument free function \<^verbatim>\<open>compose(p1, p2)\<close> of
  \<^verbatim>\<open>gtsam/base/Lie.h\<close>, which the overload with Jacobian slots calls; it is the member
  \<^verbatim>\<open>p1.compose(p2)\<close>.
\<close>

definition compose :: "Point2 \<Rightarrow> Point2 \<Rightarrow> Point2" where
  "compose p1 p2 = Point2_compose p1 p2"

text \<open>
  The caller's matrices live in a store, indexed by address. A Jacobian slot
  \<^verbatim>\<open>boost::optional<Matrix&>\<close> is either \<open>None\<close> (\<^verbatim>\<open>boost::none\<close>) or the address of the
  caller's matrix, and \<^verbatim>\<open>if(H) *H = m\<close> overwrites the matrix at that address.
\<close>

type_synonym store = "nat \<Rightarrow> Matrix"

definition assign_slot :: "nat option \<Rightarrow> Matrix \<Rightarrow> store \<Rightarrow> store" where
  "assign_slot H m st = (case H of None \<Rightarrow> st | Some a \<Rightarrow> st(a := m))"

definition compose_H :: "Point2 \<Rightarrow> Point2 \<Rightarrow> nat option \<Rightarrow> nat option \<Rightarrow> store \<Rightarrow> Point2 \<times> store" where
  "compose_H p1 p2 H1 H2 st =
     (let st1 = assign_slot H1 (eye 2) st;
          st2 = assign_slot H2 (eye 2) st1
      in (compose p1 p2, st2))"

definition Dcompose1_Point2 :: "Point2 \<Rightarrow> Point2 \<Rightarrow> Matrix" where
  "Dcompose1_Point2 p1 p0 = mk_Matrix 2 2 [lit 1, lit 0, lit 0, lit 1]"

definition Dcompose2_Point2 :: "Point2 \<Rightarrow> Point2 \<Rightarrow> Matrix" where
  "Dcompose2_Point2 p1 p0 = mk_Matrix 2 2 [lit 1, lit 0, lit 0, lit 1]"

definition between :: "Point2 \<Rightarrow> Point2 \<Rightarrow> Point2" where
  "between p1 p2 = Point2_minus p2 p1"

definition between_H :: "Point2 \<Rightarrow> Point2 \<Rightarrow> nat option \<Rightarrow> nat option \<Rightarrow> store \<Rightarrow> Point2 \<times> store" where
  "between_H p1 p2 H1 H2 st =
     (let st1 = assign_slot H1 (Matrix_uminus (eye 2)) st;
          st2 = assign_slot H2 (eye 2) st1
      in (between p1 p2, st2))"

section \<open>Point3\<close>

datatype Point3 = Point3 (Point3_x: double) (Point3_y: double) (Point3_z: double)

definition Point3_default :: Point3 where
  "Point3_default = Point3 (lit 0) (lit 0) (lit 0)"

text \<open>\<^verbatim>\<open>Point3(const Vector& v) : x_(v(0)), y_(v(1)), z_(v(2))\<close>\<close>

definition Point3_of_Vector :: "Vector \<Rightarrow> error + Point3" where
  "Point3_of_Vector v =
     (case Vector_at v 0 of
        Inl e \<Rightarrow> Inl e
      | Inr a \<Rightarrow>
          (case Vector_at v 1 of
             Inl e \<Rightarrow> Inl e
           | Inr b \<Rightarrow> (case Vector_at v 2 of Inl e \<Rightarrow> Inl e | Inr c \<Rightarrow> Inr (Point3 a b c))))"

text \<open>
  Modelled from the spec: \<^verbatim>\<open>Point3::equals\<close> is declared in \<^verbatim>\<open>Point3.h\<close> and defined in a
  file that is not part of the sources at hand; as for \<^verbatim>\<open>Point2\<close>, all corresponding fields
  differ by less than the tolerance in absolute value.
\<close>

definition Point3_equals :: "Point3 \<Rightarrow> Point3 \<Rightarrow> double \<Rightarrow> bool" where
  "Point3_equals p q tol =
     (dlt (dabs (dsub (Point3_x p) (Point3_x q))) tol \<and>
      dlt (dabs (dsub (Point3_y p) (Point3_y q))) tol \<and>
      dlt (dabs (dsub (Point3_z p) (Point3_z q))) tol)"

text \<open>
  Modelled from the spec: \<^verbatim>\<open>Point3::operator+\<close> is declared in \<^verbatim>\<open>Point3.h\<close> and defined in
  a file that is not part of the sources at hand; the specification makes it component-wise
  addition, as for the other two classes.
\<close>

definition Point3_plus :: "Point3 \<Rightarrow> Point3 \<Rightarrow> Point3" where
  "Point3_plus p q =
     Point3 (dadd (Point3_x p) (Point3_x q)) (dadd (Point3_y p) (Point3_y q))
       (dadd (Point3_z p) (Point3_z q))"

definition Point3_inverse :: "Point3 \<Rightarrow> Point3" where
  "Point3_inverse p = Point3 (dneg (Point3_x p)) (dneg (Point3_y p)) (dneg (Point3_z p))"

definition Point3_compose :: "Point3 \<Rightarrow> Point3 \<Rightarrow> Point3" where
  "Point3_compose p p1 = Point3_plus p p1"

definition Point3_Expmap :: "Vector \<Rightarrow> error + Point3" where
  "Point3_Expmap v = Point3_of_Vector v"

definition Point3_Logmap :: "Point3 \<Rightarrow> Vector" where
  "Point3_Logmap dp = mk_Vector 3 [Point3_x dp, Point3_y dp, Point3_z dp]"

definition Dcompose1_Point3 :: "Point3 \<Rightarrow> Point3 \<Rightarrow> Matrix" where
  "Dcompose1_Point3 p1 p0 =
     mk_Matrix 3 3 [lit 1, lit 0, lit 0, lit 0, lit 1, lit 0, lit 0, lit 0, lit 1]"

definition Dcompose2_Point3 :: "Point3 \<Rightarrow> Point3 \<Rightarrow> Matrix" where
  "Dcompose2_Point3 p1 p0 =
     mk_Matrix 3 3 [lit 1, lit 0, lit 0, lit 0, lit 1, lit 0, lit 0, lit 0, lit 1]"

section \<open>StereoPoint2\<close>

datatype StereoPoint2 =
  StereoPoint2 (StereoPoint2_uL: double) (StereoPoint2_uR: double) (StereoPoint2_v: double)

definition StereoPoint2_default :: StereoPoint2 where
  "StereoPoint2_default = StereoPoint2 (lit 0) (lit 0) (lit 0)"

definition StereoPoint2_equals :: "StereoPoint2 \<Rightarrow> StereoPoint2 \<Rightarrow> double \<Rightarrow> bool" where
  "StereoPoint2_equals p q tol =
     (dlt (dabs (dsub (StereoPoint2_uL p) (StereoPoint2_uL q))) tol \<and>
      dlt (dabs (dsub (StereoPoint2_uR p) (StereoPoint2_uR q))) tol \<and>
      dlt (dabs (dsub (StereoPoint2_v p) (StereoPoint2_v q))) tol)"

definition StereoPoint2_vector :: "StereoPoint2 \<Rightarrow> Vector" where
  "StereoPoint2_vector p = mk_Vector 3 [StereoPoint2_uL p, StereoPoint2_uR p, StereoPoint2_v p]"

definition StereoPoint2_plus :: "StereoPoint2 \<Rightarrow> StereoPoint2 \<Rightarrow> StereoPoint2" where
  "StereoPoint2_plus a b =
     StereoPoint2 (dadd (StereoPoint2_uL a) (StereoPoint2_uL b))
       (dadd (StereoPoint2_uR a) (StereoPoint2_uR b))
       (dadd (StereoPoint2_v a) (StereoPoint2_v b))"

definition StereoPoint2_minus :: "StereoPoint2 \<Rightarrow> StereoPoint2 \<Rightarrow> StereoPoint2" where
  "StereoPoint2_minus a b =
     StereoPoint2 (dsub (StereoPoint2_uL a) (StereoPoint2_uL b))
       (dsub (StereoPoint2_uR a) (StereoPoint2_uR b))
       (dsub (StereoPoint2_v a) (StereoPoint2_v b))"

definition point2 :: "StereoPoint2 \<Rightarrow> Point2" where
  "point2 p = Point2 (StereoPoint2_uL p) (StereoPoint2_v p)"

definition StereoPoint2_compose :: "StereoPoint2 \<Rightarrow> StereoPoint2 \<Rightarrow> StereoPoint2" where
  "StereoPoint2_compose p p1 = StereoPoint2_plus p p1"

definition StereoPoint2_inverse :: "StereoPoint2 \<Rightarrow> StereoPoint2" where
  "StereoPoint2_inverse p = StereoPoint2_minus StereoPoint2_default p"

text \<open>\<^verbatim>\<open>StereoPoint2::Expmap(d)\<close> is \<^verbatim>\<open>StereoPoint2(d(0), d(1), d(2))\<close>.\<close>

definition StereoPoint2_Expmap :: "Vector \<Rightarrow> error + StereoPoint2" where
  "StereoPoint2_Expmap d =
     (case Vector_at d 0 of
        Inl e \<Rightarrow> Inl e
      | Inr a \<Rightarrow>
          (case Vector_at d 1 of
             Inl e \<Rightarrow> Inl e
           | Inr b \<Rightarrow>
               (case Vector_at d 2 of Inl e \<Rightarrow> Inl e | Inr c \<Rightarrow> Inr (StereoPoint2 a b c))))"

definition StereoPoint2_Logmap :: "StereoPoint2 \<Rightarrow> Vector" where
  "StereoPoint2_Logmap p = StereoPoint2_vector p"

section \<open>Predicates used to state the properties\<close>

text \<open>Points all of whose coordinates are finite doubles.\<close>

definition finite_Point2 :: "Point2 \<Rightarrow> bool" where
  "finite_Point2 p = (finite_double (Point2_x p) \<and> finite_double (Point2_y p))"

definition finite_Point3 :: "Point3 \<Rightarrow> bool" where
  "finite_Point3 p =
     (finite_double (Point3_x p) \<and> finite_double (Point3_y p) \<and> finite_double (Point3_z p))"

definition finite_StereoPoint2 :: "StereoPoint2 \<Rightarrow> bool" where
  "finite_StereoPoint2 p =
     (finite_double (StereoPoint2_uL p) \<and> finite_double (StereoPoint2_uR p) \<and>
      finite_double (StereoPoint2_v p))"

text \<open>Pairs of points whose coordinate-wise sums are exact.\<close>

definition exact_Point2 :: "Point2 \<Rightarrow> Point2 \<Rightarrow> bool" where
  "exact_Point2 p q =
     (exact_sum (Point2_x p) (Point2_x q) \<and> exact_sum (Point2_y p) (Point2_y q))"

definition exact_Point3 :: "Point3 \<Rightarrow> Point3 \<Rightarrow> bool" where
  "exact_Point3 p q =
     (exact_sum (Point3_x p) (Point3_x q) \<and> exact_sum (Point3_y p) (Point3_y q) \<and>
      exact_sum (Point3_z p) (Point3_z q))"

definition exact_StereoPoint2 :: "StereoPoint2 \<Rightarrow> StereoPoint2 \<Rightarrow> bool" where
  "exact_StereoPoint2 p q =
     (exact_sum (StereoPoint2_uL p) (StereoPoint2_uL q) \<and>
      exact_sum (StereoPoint2_uR p) (StereoPoint2_uR q) \<and>
      exact_sum (StereoPoint2_v p) (StereoPoint2_v q))"

declare excess_bits.simps [simp del]

section \<open>Rounding\<close>

lemma excess_bits_small: "k < 2 ^ 53 \<Longrightarrow> excess_bits k = 0"
  by (simp add: excess_bits.simps)

lemma excess_bits_step: "2 ^ 53 \<le> k \<Longrightarrow> excess_bits k = Suc (excess_bits (k div 2))"
  by (subst excess_bits.simps) simp

lemma excess_bits_eq: "2 ^ 52 * 2 ^ n \<le> k \<Longrightarrow> k < 2 ^ 53 * 2 ^ n \<Longrightarrow> excess_bits k = n"
proof (induction n arbitrary: k)
  case 0
  then show ?case by (simp add: excess_bits_small)
next
  case (Suc n)
  have a: "2 ^ 52 * 2 ^ n \<le> k div 2" using Suc.prems(1) by simp
  have b: "k div 2 < 2 ^ 53 * 2 ^ n" using Suc.prems(2) by simp
  have "(2::nat) ^ 53 \<le> 2 ^ (52 + Suc n)" by (rule power_increasing) simp_all
  also have "\<dots> = 2 ^ 52 * 2 ^ Suc n" by (rule power_add)
  also note Suc.prems(1)
  finally have c: "2 ^ 53 \<le> k" .
  from Suc.IH [OF a b] excess_bits_step [OF c] show ?case by simp
qed

lemma excess_bits_upper: "k < 2 ^ 53 * 2 ^ excess_bits k"
proof (induction k rule: excess_bits.induct)
  case (1 k)
  show ?case
  proof (cases "k < 2 ^ 53")
    case True
    then show ?thesis by (simp add: excess_bits_small)
  next
    case False
    from 1 [OF False] have "k div 2 < 2 ^ 53 * 2 ^ excess_bits (k div 2)" .
    then have "k < 2 * (2 ^ 53 * 2 ^ excess_bits (k div 2))" by linarith
    moreover have "excess_bits k = Suc (excess_bits (k div 2))"
      using False by (intro excess_bits_step) simp
    ultimately show ?thesis by simp
  qed
qed

lemma excess_bits_lower: "2 ^ 53 \<le> k \<Longrightarrow> 2 ^ 52 * 2 ^ excess_bits k \<le> k"
proof (induction k rule: excess_bits.induct)
  case (1 k)
  from "1.prems" have nk: "\<not> k < 2 ^ 53" by simp
  have e: "excess_bits k = Suc (excess_bits (k div 2))"
    using "1.prems" by (rule excess_bits_step)
  show ?case
  proof (cases "k div 2 < 2 ^ 53")
    case True
    then have "excess_bits (k div 2) = 0" by (rule excess_bits_small)
    with e "1.prems" show ?thesis by simp
  next
    case False
    then have "2 ^ 53 \<le> k div 2" by simp
    from "1.IH" [OF nk this] have "2 ^ 52 * 2 ^ excess_bits (k div 2) \<le> k div 2" .
    then have "2 * (2 ^ 52 * 2 ^ excess_bits (k div 2)) \<le> k" by linarith
    with e show ?thesis by simp
  qed
qed

lemma excess_bits_le:
  assumes "m < 2 ^ 53"
  shows "excess_bits (m * 2 ^ j) \<le> j"
proof (cases "m * 2 ^ j < 2 ^ 53")
  case True
  then show ?thesis by (simp only: excess_bits_small)
next
  case False
  let ?sh = "excess_bits (m * 2 ^ j)"
  from False have "2 ^ 53 \<le> m * 2 ^ j" by (simp only: not_less)
  then have "2 ^ 52 * 2 ^ ?sh \<le> m * 2 ^ j" by (rule excess_bits_lower)
  also have "m * 2 ^ j < 2 ^ 53 * 2 ^ j" using assms by (simp only: mult_less_cancel2 zero_less_power zero_less_numeral simp_thms)
  finally have "(2::nat) ^ (52 + ?sh) < 2 ^ (53 + j)" by (simp only: power_add)
  then have "52 + ?sh < 53 + j" by (simp only: power_strict_increasing_iff one_less_numeral_iff semiring_norm)
  then show ?thesis by simp
qed

lemma round53_fix:
  assumes "m < 2 ^ 53"
  shows "round53 (m * 2 ^ j) = m * 2 ^ j"
proof -
  define sh where "sh = excess_bits (m * 2 ^ j)"
  have "sh \<le> j" unfolding sh_def using assms by (rule excess_bits_le)
  then obtain d where j: "j = sh + d" using le_Suc_ex by blast
  have k: "m * 2 ^ j = (m * 2 ^ d) * 2 ^ sh" by (simp add: j power_add)
  have r: "(m * 2 ^ j) mod 2 ^ sh = 0" by (simp only: k mod_mult_self2_is_0)
  have q: "(m * 2 ^ j) div 2 ^ sh = m * 2 ^ d" by (simp only: k) simp
  show ?thesis
    unfolding round53_def Let_def sh_def [symmetric] r q by (simp add: k)
qed

lemma round53_scale: "round53 (k * 2 ^ j) = round53 k * 2 ^ j"
proof (cases "k < 2 ^ 53")
  case True
  then show ?thesis using round53_fix [of k j] round53_fix [of k 0] by simp
next
  case False
  then have big: "2 ^ 53 \<le> k" by (simp only: not_less)
  define n where "n = excess_bits k"
  have lo: "2 ^ 52 * 2 ^ n \<le> k" unfolding n_def using big by (rule excess_bits_lower)
  have hi: "k < 2 ^ 53 * 2 ^ n" unfolding n_def by (rule excess_bits_upper)
  have "2 ^ 52 * 2 ^ n * 2 ^ j \<le> k * 2 ^ j"
    using lo by (rule mult_le_mono1)
  then have a: "2 ^ 52 * 2 ^ (n + j) \<le> k * 2 ^ j"
    by (simp only: power_add mult.assoc)
  have "k * 2 ^ j < 2 ^ 53 * 2 ^ n * 2 ^ j"
    using hi by (simp only: mult_less_cancel2 zero_less_power zero_less_numeral simp_thms)
  then have b: "k * 2 ^ j < 2 ^ 53 * 2 ^ (n + j)"
    by (simp only: power_add mult.assoc)
  from a b have e: "excess_bits (k * 2 ^ j) = n + j" by (rule excess_bits_eq)
  have q: "(k * 2 ^ j) div 2 ^ (n + j) = k div 2 ^ n"
    by (simp only: power_add div_mult_mult2 power_not_zero zero_neq_numeral not_False_eq_True)
  have r: "(k * 2 ^ j) mod 2 ^ (n + j) = (k mod 2 ^ n) * 2 ^ j"
    by (simp only: power_add mod_mult_mult2)
  define Q where "Q = k div 2 ^ n"
  define R where "R = k mod 2 ^ n"
  have c1: "(2 ^ (n + j) < 2 * (R * 2 ^ j)) = (2 ^ n < 2 * R)"
  proof -
    have "(2 ^ n * 2 ^ j < (2 * R) * 2 ^ j) = (2 ^ n < 2 * R)"
      by (simp only: mult_less_cancel2 zero_less_power zero_less_numeral simp_thms)
    then show ?thesis by (simp only: power_add mult.assoc)
  qed
  have c2: "(2 * (R * 2 ^ j) = 2 ^ (n + j)) = (2 * R = 2 ^ n)"
  proof -
    have "((2 * R) * 2 ^ j = 2 ^ n * 2 ^ j) = (2 * R = 2 ^ n)"
      by (simp only: mult_cancel2 power_not_zero zero_neq_numeral not_False_eq_True simp_thms)
    then show ?thesis by (simp only: power_add mult.assoc)
  qed
  have m: "\<And>x::nat. x * 2 ^ (n + j) = x * 2 ^ n * 2 ^ j"
    by (simp only: power_add mult.assoc)
  show ?thesis
    unfolding round53_def Let_def e q r n_def [symmetric] Q_def [symmetric] R_def [symmetric] c1 c2 m
    by (simp only: if_distrib [of "\<lambda>x. x * 2 ^ j"])
qed

lemma round53_small: "k < 2 ^ 53 \<Longrightarrow> round53 k = k"
  using round53_fix [of k 0] by simp

lemma representable_scaled:
  assumes "n < 2 ^ 53" and "j \<le> 2045"
  shows "representable (n * 2 ^ j)"
proof -
  have "n * 2 ^ j < 2 ^ 53 * 2 ^ j"
    using assms(1) by (simp only: mult_less_cancel2 zero_less_power zero_less_numeral simp_thms)
  also have "\<dots> = 2 ^ (53 + j)" by (simp only: power_add)
  also have "\<dots> \<le> (2::nat) ^ 2098" using assms(2) by (intro power_increasing) simp_all
  finally have "n * 2 ^ j < 2 ^ 2098" .
  with round53_fix [OF assms(1)] show ?thesis by (simp only: representable_def simp_thms)
qed

lemma finite_double_lit: "n < 2 ^ 53 \<Longrightarrow> finite_double (lit n)"
  unfolding lit_def finite_double.simps by (rule representable_scaled) simp_all

lemma lit_0: "lit 0 = Fin False 0"
  by (simp add: lit_def)

lemma representable_0: "representable 0"
  using representable_scaled [of 0 0] by simp

lemma rounded_exact: "representable k \<Longrightarrow> rounded s k = Fin s k"
  by (simp add: rounded_def representable_def)

lemma dadd_commute: "dadd a b = dadd b a"
  by (cases a; cases b) (auto simp: add.commute)

lemma dadd_exact:
  assumes "exact_sum a b"
  shows "dadd a b =
    (if units a + units b = 0 then Fin (a = Fin True 0 \<and> b = Fin True 0) 0
     else Fin (units a + units b < 0) (nat \<bar>units a + units b\<bar>))"
proof -
  from assms obtain s j t k where a: "a = Fin s j" and b: "b = Fin t k"
    by (cases a; cases b) auto
  from assms have r: "representable (nat \<bar>sval s j + sval t k\<bar>)" by (simp add: a b)
  show ?thesis
  proof (cases "s = t")
    case True
    then have "nat \<bar>sval s j + sval t k\<bar> = j + k" by (auto simp: sval_def nat_int_add add.commute)
    with r have "rounded s (j + k) = Fin s (j + k)" by (simp add: rounded_exact)
    with True show ?thesis by (auto simp: a b sval_def)
  next
    case False
    show ?thesis
    proof (cases "k < j")
      case True
      with False have "nat \<bar>sval s j + sval t k\<bar> = j - k" by (auto simp: sval_def)
      with r have "rounded s (j - k) = Fin s (j - k)" by (simp add: rounded_exact)
      with True False show ?thesis by (auto simp: a b sval_def)
    next
      case nlt: False
      show ?thesis
      proof (cases "j < k")
        case True
        with False have "nat \<bar>sval s j + sval t k\<bar> = k - j" by (auto simp: sval_def)
        with r have "rounded t (k - j) = Fin t (k - j)" by (simp add: rounded_exact)
        with True False show ?thesis by (auto simp: a b sval_def)
      next
        case False
        with nlt have "j = k" by simp
        with \<open>s \<noteq> t\<close> show ?thesis by (auto simp: a b sval_def)
      qed
    qed
  qed
qed

lemma dadd_exact_units:
  assumes "exact_sum a b"
  shows "finite_double (dadd a b) \<and> units (dadd a b) = units a + units b"
proof -
  from assms obtain s j t k where a: "a = Fin s j" and b: "b = Fin t k"
    by (cases a; cases b) auto
  from assms have r: "representable (nat \<bar>units a + units b\<bar>)" by (simp add: a b)
  show ?thesis
    unfolding dadd_exact [OF assms] using r representable_0 by (auto simp: sval_def)
qed

lemma dadd_exact_negzero:
  assumes "exact_sum a b"
  shows "dadd a b = Fin True 0 \<longleftrightarrow> a = Fin True 0 \<and> b = Fin True 0"
  unfolding dadd_exact [OF assms] by (auto simp: sval_def)

lemma dadd_assoc_exact:
  assumes "exact_sum a b" and "exact_sum (dadd a b) c"
    and "exact_sum b c" and "exact_sum a (dadd b c)"
  shows "dadd (dadd a b) c = dadd a (dadd b c)"
proof -
  have u1: "units (dadd a b) = units a + units b"
    using dadd_exact_units [OF assms(1)] by simp
  have u2: "units (dadd b c) = units b + units c"
    using dadd_exact_units [OF assms(3)] by simp
  show ?thesis
    unfolding dadd_exact [OF assms(2)] dadd_exact [OF assms(4)] u1 u2
      dadd_exact_negzero [OF assms(1)] dadd_exact_negzero [OF assms(3)]
    by (simp add: add.assoc conj_assoc)
qed

section \<open>Construction from a coordinate vector\<close>

lemma Point2_of_Vector_eq:
  "Point2_of_Vector v = (if 2 \<le> length v then Inr (Point2 (v ! 0) (v ! 1)) else Inl OutOfBounds)"
  by (auto simp: Point2_of_Vector_def Vector_at_def)

lemma Point3_of_Vector_eq:
  "Point3_of_Vector v =
     (if 3 \<le> length v then Inr (Point3 (v ! 0) (v ! 1) (v ! 2)) else Inl OutOfBounds)"
  by (auto simp: Point3_of_Vector_def Vector_at_def)

lemma StereoPoint2_Expmap_eq:
  "StereoPoint2_Expmap d =
     (if 3 \<le> length d then Inr (StereoPoint2 (d ! 0) (d ! 1) (d ! 2)) else Inl OutOfBounds)"
  by (auto simp: StereoPoint2_Expmap_def Vector_at_def)

theorem from_Vector_length_3_counterexample:
  "length [lit 1, lit 2, lit 3] \<noteq> 2 \<and>
   Point2_of_Vector [lit 1, lit 2, lit 3] = Inr (Point2 (lit 1) (lit 2)) \<and>
   Point2_Expmap [lit 1, lit 2, lit 3] \<noteq> Inl InvalidDimension"
  by (simp add: Point2_Expmap_def Point2_of_Vector_def Vector_at_def)

text \<open>
  Claim C1, as the code has it: no constructor from a coordinate vector checks the
  vector's length, and none fails with \<open>InvalidDimension\<close>. A vector at least as long
  as the class's dimension, a longer one included, gives the point of its first
  coordinates; a shorter vector is read past its end.
\<close>

theorem from_Vector_unchecked:
  "Point2_of_Vector v \<noteq> Inl InvalidDimension \<and>
   Point2_Expmap v \<noteq> Inl InvalidDimension \<and>
   Point3_of_Vector v \<noteq> Inl InvalidDimension \<and>
   Point3_Expmap v \<noteq> Inl InvalidDimension \<and>
   StereoPoint2_Expmap v \<noteq> Inl InvalidDimension \<and>
   Point2_Expmap v =
     (if 2 \<le> length v then Inr (Point2 (v ! 0) (v ! 1)) else Inl OutOfBounds) \<and>
   Point3_Expmap v =
     (if 3 \<le> length v then Inr (Point3 (v ! 0) (v ! 1) (v ! 2)) else Inl OutOfBounds) \<and>
   StereoPoint2_Expmap v =
     (if 3 \<le> length v then Inr (StereoPoint2 (v ! 0) (v ! 1) (v ! 2)) else Inl OutOfBounds)"
  by (simp add: Point2_Expmap_def Point3_Expmap_def Point2_of_Vector_eq Point3_of_Vector_eq
      StereoPoint2_Expmap_eq)

theorem from_Vector_unchecked_witness:
  "Point2_Expmap [lit 4, lit 5, lit 6, lit 7] = Inr (Point2 (lit 4) (lit 5)) \<and>
   Point3_Expmap [lit 4, lit 5, lit 6, lit 7] = Inr (Point3 (lit 4) (lit 5) (lit 6)) \<and>
   StereoPoint2_Expmap [lit 4, lit 5, lit 6, lit 7] = Inr (StereoPoint2 (lit 4) (lit 5) (lit 6))"
  using from_Vector_unchecked [of "[lit 4, lit 5, lit 6, lit 7]"] by simp

lemma deq_self: "deq a a = (a \<noteq> NaN)"
  by (cases a) simp_all

theorem Point2_eq_NaN_counterexample:
  "deq (lit 1) (lit 1) \<and> lit 0 \<noteq> NaN \<and>
   \<not> Point2_eq (Point2 (lit 1) (lit 0)) (Point2 (lit 1) NaN)"
  by (simp add: Point2_eq_def lit_def)

text \<open>
  Claim C2, as the code has it: \<^verbatim>\<open>Point2::operator==\<close> never reads the left operand's
  \<open>y\<close>. Its result is that of \<^verbatim>\<open>x_ == q.x_\<close>, provided that \<^verbatim>\<open>q.y_\<close> is not NaN (the
  second conjunct compares \<^verbatim>\<open>q.y_\<close> with itself, and NaN differs from itself).
\<close>

theorem Point2_eq_ignores_own_y:
  "Point2_eq p q = (deq (Point2_x p) (Point2_x q) \<and> Point2_y q \<noteq> NaN) \<and>
   Point2_eq (Point2 a b) q = Point2_eq (Point2 a b') q"
  by (simp add: Point2_eq_def deq_self)

theorem Point2_eq_ignores_own_y_witness:
  "Point2_eq (Point2 (lit 1) (lit 2)) (Point2 (lit 1) (lit 3)) \<and> lit 2 \<noteq> lit 3"
  using Point2_eq_ignores_own_y [of "Point2 (lit 1) (lit 2)" "Point2 (lit 1) (lit 3)"]
  by (simp add: lit_def sval_def)

lemma dlt_dabs_zero: "deq tol (Fin False 0) \<Longrightarrow> \<not> dlt (dabs d) tol"
  by (cases tol; cases d) (auto simp: sval_def)

lemma dlt_dabs_dsub_self: "finite_double a \<Longrightarrow> dlt (Fin False 0) tol \<Longrightarrow> dlt (dabs (dsub a a)) tol"
  by (cases a) (simp_all add: dsub_def)

theorem StereoPoint2_equals_zero_tol_counterexample:
  "dle (lit 0) (lit 0) \<and>
   \<not> StereoPoint2_equals (StereoPoint2 (lit 10) (lit 8) (lit 5))
       (StereoPoint2 (lit 10) (lit 8) (lit 5)) (lit 0)"
  by (simp add: StereoPoint2_equals_def dle_def lit_def dsub_def)

text \<open>
  Claim C3, as the code has it: the comparison with the tolerance is strict. For a point
  with finite coordinates and a tolerance above zero, \<^verbatim>\<open>equals(p, p, tol)\<close> is true; for
  a tolerance equal to zero, \<^verbatim>\<open>equals(p, q, tol)\<close> is false for all \<open>p\<close> and \<open>q\<close>, also
  when all their fields are equal.
\<close>

theorem equals_strict:
  "(finite_StereoPoint2 s \<and> dlt (lit 0) tol \<longrightarrow> StereoPoint2_equals s s tol) \<and>
   (finite_Point2 p2 \<and> dlt (lit 0) tol \<longrightarrow> Point2_equals p2 p2 tol) \<and>
   (finite_Point3 p3 \<and> dlt (lit 0) tol \<longrightarrow> Point3_equals p3 p3 tol) \<and>
   (deq tol (lit 0) \<longrightarrow>
      \<not> StereoPoint2_equals s t tol \<and> \<not> Point2_equals p2 q2 tol \<and> \<not> Point3_equals p3 q3 tol)"
  by (simp add: StereoPoint2_equals_def finite_StereoPoint2_def Point2_equals_def
      finite_Point2_def Point3_equals_def finite_Point3_def lit_0 dlt_dabs_zero
      dlt_dabs_dsub_self)

theorem equals_strict_witness:
  "finite_StereoPoint2 (StereoPoint2 (lit 10) (lit 8) (lit 5)) \<and> dlt (lit 0) (lit 1) \<and>
   StereoPoint2_equals (StereoPoint2 (lit 10) (lit 8) (lit 5))
     (StereoPoint2 (lit 10) (lit 8) (lit 5)) (lit 1) \<and>
   finite_Point2 (Point2 (lit 1) (lit 2)) \<and>
   Point2_equals (Point2 (lit 1) (lit 2)) (Point2 (lit 1) (lit 2)) (lit 1) \<and>
   finite_Point3 (Point3 (lit 1) (lit 2) (lit 3)) \<and>
   Point3_equals (Point3 (lit 1) (lit 2) (lit 3)) (Point3 (lit 1) (lit 2) (lit 3)) (lit 1) \<and>
   deq (Fin True 0) (lit 0) \<and>
   \<not> StereoPoint2_equals (StereoPoint2 (lit 10) (lit 8) (lit 5))
       (StereoPoint2 (lit 10) (lit 8) (lit 5)) (Fin True 0) \<and>
   \<not> Point2_equals (Point2 (lit 1) (lit 2)) (Point2 (lit 1) (lit 2)) (Fin True 0) \<and>
   \<not> Point3_equals (Point3 (lit 1) (lit 2) (lit 3)) (Point3 (lit 1) (lit 2) (lit 3)) (Fin True 0)"
proof -
  have f: "finite_StereoPoint2 (StereoPoint2 (lit 10) (lit 8) (lit 5))"
    "finite_Point2 (Point2 (lit 1) (lit 2))"
    "finite_Point3 (Point3 (lit 1) (lit 2) (lit 3))"
    by (simp_all add: finite_StereoPoint2_def finite_Point2_def finite_Point3_def
        finite_double_lit)
  have l: "dlt (lit 0) (lit 1)" by (simp add: lit_def sval_def)
  have z: "deq (Fin True 0) (lit 0)" by (simp add: lit_def sval_def)
  note a = equals_strict [of "StereoPoint2 (lit 10) (lit 8) (lit 5)" "lit 1"
      "Point2 (lit 1) (lit 2)" "Point3 (lit 1) (lit 2) (lit 3)"]
  note b = equals_strict [of "StereoPoint2 (lit 10) (lit 8) (lit 5)" "Fin True 0"
      "Point2 (lit 1) (lit 2)" "Point3 (lit 1) (lit 2) (lit 3)"
      "StereoPoint2 (lit 10) (lit 8) (lit 5)" "Point2 (lit 1) (lit 2)"
      "Point3 (lit 1) (lit 2) (lit 3)"]
  from f l z a b show ?thesis by blast
qed

section \<open>The group laws\<close>

text \<open>
  Claim C4: on a vector of the class's dimension \<^verbatim>\<open>Expmap\<close> returns a point whose
  \<^verbatim>\<open>Logmap\<close> is that vector, and \<^verbatim>\<open>Expmap\<close> of the \<^verbatim>\<open>Logmap\<close> of a point is the point,
  for \<^verbatim>\<open>Point2\<close>, \<^verbatim>\<open>Point3\<close> and \<^verbatim>\<open>StereoPoint2\<close>. Equality is identity of the
  coordinates.
\<close>

theorem Expmap_Logmap_inverse:
  "(length v2 = 2 \<longrightarrow>
      (case Point2_Expmap v2 of Inl e \<Rightarrow> False | Inr p \<Rightarrow> Point2_Logmap p = v2)) \<and>
   (length v3 = 3 \<longrightarrow>
      (case Point3_Expmap v3 of Inl e \<Rightarrow> False | Inr p \<Rightarrow> Point3_Logmap p = v3) \<and>
      (case StereoPoint2_Expmap v3 of Inl e \<Rightarrow> False | Inr p \<Rightarrow> StereoPoint2_Logmap p = v3)) \<and>
   Point2_Expmap (Point2_Logmap p2) = Inr p2 \<and>
   Point3_Expmap (Point3_Logmap p3) = Inr p3 \<and>
   StereoPoint2_Expmap (StereoPoint2_Logmap s) = Inr s"
proof (intro conjI impI)
  assume "length v2 = 2"
  then obtain a b where "v2 = [a, b]"
    by (cases v2; cases "tl v2") auto
  then show "case Point2_Expmap v2 of Inl e \<Rightarrow> False | Inr p \<Rightarrow> Point2_Logmap p = v2"
    by (simp add: Point2_Expmap_def Point2_of_Vector_eq Point2_Logmap_def mk_Vector_def)
next
  assume "length v3 = 3"
  then obtain a b c where v3: "v3 = [a, b, c]"
    by (cases v3; cases "tl v3"; cases "tl (tl v3)") auto
  show "case Point3_Expmap v3 of Inl e \<Rightarrow> False | Inr p \<Rightarrow> Point3_Logmap p = v3"
    by (simp add: v3 Point3_Expmap_def Point3_of_Vector_eq Point3_Logmap_def mk_Vector_def)
  show "case StereoPoint2_Expmap v3 of Inl e \<Rightarrow> False | Inr p \<Rightarrow> StereoPoint2_Logmap p = v3"
    by (simp add: v3 StereoPoint2_Expmap_eq StereoPoint2_Logmap_def StereoPoint2_vector_def
        mk_Vector_def)
next
  show "Point2_Expmap (Point2_Logmap p2) = Inr p2"
    by (simp add: Point2_Expmap_def Point2_of_Vector_eq Point2_Logmap_def mk_Vector_def)
  show "Point3_Expmap (Point3_Logmap p3) = Inr p3"
    by (simp add: Point3_Expmap_def Point3_of_Vector_eq Point3_Logmap_def mk_Vector_def)
  show "StereoPoint2_Expmap (StereoPoint2_Logmap s) = Inr s"
    by (simp add: StereoPoint2_Expmap_eq StereoPoint2_Logmap_def StereoPoint2_vector_def
        mk_Vector_def)
qed

theorem Expmap_Logmap_inverse_witness:
  "length [lit 1, lit 2] = 2 \<and> length [lit 1, lit 2, lit 3] = 3 \<and>
   Point2_Expmap [lit 1, lit 2] = Inr (Point2 (lit 1) (lit 2)) \<and>
   Point2_Logmap (Point2 (lit 1) (lit 2)) = [lit 1, lit 2] \<and>
   (case Point2_Expmap [lit 1, lit 2] of Inl e \<Rightarrow> False
    | Inr p \<Rightarrow> Point2_Logmap p = [lit 1, lit 2]) \<and>
   (case Point3_Expmap [lit 1, lit 2, lit 3] of Inl e \<Rightarrow> False
    | Inr p \<Rightarrow> Point3_Logmap p = [lit 1, lit 2, lit 3]) \<and>
   (case StereoPoint2_Expmap [lit 1, lit 2, lit 3] of Inl e \<Rightarrow> False
    | Inr p \<Rightarrow> StereoPoint2_Logmap p = [lit 1, lit 2, lit 3])"
proof -
  have e: "Point2_Expmap [lit 1, lit 2] = Inr (Point2 (lit 1) (lit 2))"
    by (simp add: Point2_Expmap_def Point2_of_Vector_def Vector_at_def)
  have l: "Point2_Logmap (Point2 (lit 1) (lit 2)) = [lit 1, lit 2]"
    by (simp add: Point2_Logmap_def mk_Vector_def)
  from e l Expmap_Logmap_inverse [of "[lit 1, lit 2]" "[lit 1, lit 2, lit 3]"]
  show ?thesis by simp
qed

text \<open>
  Claim C10: \<^verbatim>\<open>point2()\<close> of the stereo point \<open>(uL, uR, v)\<close> is the \<^verbatim>\<open>Point2\<close>
  \<open>(uL, v)\<close>; in particular \<^verbatim>\<open>StereoPoint2(10, 8, 5).point2()\<close> is \<^verbatim>\<open>Point2(10, 5)\<close>.
\<close>

theorem point2_drops_uR:
  "point2 (StereoPoint2 uL uR v) = Point2 uL v \<and>
   point2 (StereoPoint2 (lit 10) (lit 8) (lit 5)) = Point2 (lit 10) (lit 5)"
  by (simp add: point2_def)

theorem compose_inverse_Infty_counterexample:
  "Point2_compose (Point2 (Infty False) (lit 0)) (Point2_inverse (Point2 (Infty False) (lit 0)))
     = Point2 NaN (lit 0) \<and>
   Point2_compose (Point2 (Infty False) (lit 0)) (Point2_inverse (Point2 (Infty False) (lit 0)))
     \<noteq> Point2_default"
  by (simp add: Point2_compose_def Point2_plus_def Point2_inverse_def Point2_default_def lit_def)

lemma dadd_dneg_finite: "finite_double a \<Longrightarrow> dadd a (dneg a) = lit 0"
  by (cases a) (simp_all add: lit_0)

lemma dadd_zero_dsub_finite: "finite_double a \<Longrightarrow> dadd a (dsub (lit 0) a) = lit 0"
proof (cases a)
  case (Fin s k)
  assume "finite_double a"
  with Fin have r: "representable k" by simp
  show ?thesis
  proof (cases "s \<or> k = 0")
    case True
    then show ?thesis using r by (auto simp: Fin lit_0 dsub_def rounded_exact)
  next
    case False
    then show ?thesis using r by (auto simp: Fin lit_0 dsub_def rounded_exact)
  qed
qed simp_all

text \<open>
  Claim C5, as the code has it: for a point whose coordinates are all finite,
  \<^verbatim>\<open>p.compose(p.inverse())\<close> is the all-zero identity of its class. (An infinite
  coordinate gives \<open>\<infinity> + (-\<infinity>)\<close>, which is NaN.)
\<close>

theorem compose_inverse_identity:
  "(finite_Point2 p2 \<longrightarrow> Point2_compose p2 (Point2_inverse p2) = Point2_default) \<and>
   (finite_Point3 p3 \<longrightarrow> Point3_compose p3 (Point3_inverse p3) = Point3_default) \<and>
   (finite_StereoPoint2 s \<longrightarrow>
      StereoPoint2_compose s (StereoPoint2_inverse s) = StereoPoint2_default)"
  by (simp add: finite_Point2_def Point2_compose_def Point2_plus_def Point2_inverse_def
      Point2_default_def finite_Point3_def Point3_compose_def Point3_plus_def Point3_inverse_def
      Point3_default_def finite_StereoPoint2_def StereoPoint2_compose_def StereoPoint2_plus_def
      StereoPoint2_inverse_def StereoPoint2_minus_def StereoPoint2_default_def
      dadd_dneg_finite dadd_zero_dsub_finite)

theorem compose_inverse_identity_witness:
  "finite_Point2 (Point2 (lit 1) (lit 2)) \<and>
   Point2_compose (Point2 (lit 1) (lit 2)) (Point2_inverse (Point2 (lit 1) (lit 2)))
     = Point2 (lit 0) (lit 0) \<and>
   finite_Point3 (Point3 (lit 1) (lit 2) (lit 3)) \<and>
   Point3_compose (Point3 (lit 1) (lit 2) (lit 3)) (Point3_inverse (Point3 (lit 1) (lit 2) (lit 3)))
     = Point3 (lit 0) (lit 0) (lit 0) \<and>
   finite_StereoPoint2 (StereoPoint2 (lit 10) (lit 8) (lit 5)) \<and>
   StereoPoint2_compose (StereoPoint2 (lit 10) (lit 8) (lit 5))
       (StereoPoint2_inverse (StereoPoint2 (lit 10) (lit 8) (lit 5)))
     = StereoPoint2 (lit 0) (lit 0) (lit 0)"
proof -
  have a: "finite_Point2 (Point2 (lit 1) (lit 2))"
    by (simp add: finite_Point2_def finite_double_lit)
  have b: "finite_Point3 (Point3 (lit 1) (lit 2) (lit 3))"
    by (simp add: finite_Point3_def finite_double_lit)
  have c: "finite_StereoPoint2 (StereoPoint2 (lit 10) (lit 8) (lit 5))"
    by (simp add: finite_StereoPoint2_def finite_double_lit)
  from a b c
    compose_inverse_identity [of "Point2 (lit 1) (lit 2)" "Point3 (lit 1) (lit 2) (lit 3)"
      "StereoPoint2 (lit 10) (lit 8) (lit 5)"]
  show ?thesis
    by (simp only: Point2_default_def Point3_default_def StereoPoint2_default_def simp_thms)
qed

section \<open>Integer literals\<close>

lemma rounded_lit:
  "rounded s (n * 2 ^ 1074) =
     (if 2 ^ 1024 \<le> round53 n then Infty s else Fin s (round53 n * 2 ^ 1074))"
proof -
  have "(2::nat) ^ 2098 = 2 ^ 1024 * 2 ^ 1074"
    by (simp only: power_add [symmetric]) simp
  then have "((2::nat) ^ 2098 \<le> round53 n * 2 ^ 1074) = (2 ^ 1024 \<le> round53 n)"
    by (simp only: mult_le_cancel2 zero_less_power zero_less_numeral simp_thms)
  then show ?thesis
    by (simp only: rounded_def Let_def round53_scale)
qed

lemma exact_sum_lit: "a + b < 2 ^ 53 \<Longrightarrow> exact_sum (lit a) (lit b)"
proof -
  assume "a + b < 2 ^ 53"
  then have "representable ((a + b) * 2 ^ 1074)" by (rule representable_scaled) simp
  moreover have "nat \<bar>sval False (a * 2 ^ 1074) + sval False (b * 2 ^ 1074)\<bar> = (a + b) * 2 ^ 1074"
    by (simp only: sval_def if_False nat_int_add abs_of_nat of_nat_add [symmetric] nat_int distrib_right)
  ultimately show ?thesis by (simp only: lit_def exact_sum.simps)
qed

lemma dadd_lit: "a + b < 2 ^ 53 \<Longrightarrow> dadd (lit a) (lit b) = lit (a + b)"
proof -
  assume "a + b < 2 ^ 53"
  then have "representable ((a + b) * 2 ^ 1074)" by (rule representable_scaled) simp
  then have "rounded False (a * 2 ^ 1074 + b * 2 ^ 1074) = Fin False ((a + b) * 2 ^ 1074)"
    by (simp only: distrib_right rounded_exact)
  then show ?thesis by (simp only: lit_def dadd.simps simp_thms if_True)
qed

section \<open>Jacobians\<close>

lemma eye_2: "eye 2 = [[lit 1, lit 0], [lit 0, lit 1]]"
  by (simp add: eye_def upt_rec numeral_2_eq_2)

lemma eye_3: "eye 3 = [[lit 1, lit 0, lit 0], [lit 0, lit 1, lit 0], [lit 0, lit 0, lit 1]]"
  by (simp add: eye_def upt_rec numeral_3_eq_3)

lemma mk_Matrix_2_2: "mk_Matrix 2 2 [a, b, c, d] = [[a, b], [c, d]]"
  by (simp add: mk_Matrix_def upt_rec numeral_2_eq_2)

lemma mk_Matrix_3_3:
  "mk_Matrix 3 3 [a, b, c, d, e, f, g, h, i] = [[a, b, c], [d, e, f], [g, h, i]]"
  by (simp add: mk_Matrix_def upt_rec numeral_3_eq_3)

lemma snd_compose_H:
  "snd (compose_H p1 p2 H1 H2 st) = assign_slot H2 (eye 2) (assign_slot H1 (eye 2) st)"
  by (simp add: compose_H_def)

lemma snd_between_H:
  "snd (between_H p1 p2 H1 H2 st) =
     assign_slot H2 (eye 2) (assign_slot H1 (Matrix_uminus (eye 2)) st)"
  by (simp add: between_H_def)

text \<open>
  Claim C6: whatever the two points are, \<^verbatim>\<open>Dcompose1\<close> and \<^verbatim>\<open>Dcompose2\<close> return the
  identity matrix (2 by 2 for \<^verbatim>\<open>Point2\<close>, 3 by 3 for \<^verbatim>\<open>Point3\<close>); \<^verbatim>\<open>compose\<close> with
  Jacobian slots leaves the 2 by 2 identity in each slot it is given; \<^verbatim>\<open>between\<close> leaves
  the negated identity in the slot of its first argument and the identity in the slot of
  its second. (\<^verbatim>\<open>between\<close> assigns the first slot before the second: should a caller pass
  one matrix as both slots, that matrix ends as the identity.)
\<close>

theorem Jacobians_of_compose_and_between:
  "Dcompose1_Point2 p1 p0 = eye 2 \<and> Dcompose2_Point2 p1 p0 = eye 2 \<and>
   Dcompose1_Point3 q1 q0 = eye 3 \<and> Dcompose2_Point3 q1 q0 = eye 3 \<and>
   snd (compose_H p1 p2 (Some a) H2 st) a = eye 2 \<and>
   snd (compose_H p1 p2 H1 (Some b) st) b = eye 2 \<and>
   snd (between_H p1 p2 (Some a) H2 st) a =
     (if H2 = Some a then eye 2 else Matrix_uminus (eye 2)) \<and>
   snd (between_H p1 p2 H1 (Some b) st) b = eye 2 \<and>
   eye 2 = [[lit 1, lit 0], [lit 0, lit 1]] \<and>
   eye 3 = [[lit 1, lit 0, lit 0], [lit 0, lit 1, lit 0], [lit 0, lit 0, lit 1]] \<and>
   Matrix_uminus (eye 2) = [[dneg (lit 1), dneg (lit 0)], [dneg (lit 0), dneg (lit 1)]]"
  by (auto simp: Dcompose1_Point2_def Dcompose2_Point2_def Dcompose1_Point3_def
      Dcompose2_Point3_def mk_Matrix_2_2 mk_Matrix_3_3 eye_2 eye_3 snd_compose_H snd_between_H
      assign_slot_def Matrix_uminus_def split: option.splits)

theorem Jacobians_of_compose_and_between_witness:
  "Dcompose1_Point2 (Point2 (lit 1) (lit 2)) (Point2 (lit 3) (lit 4))
     = [[lit 1, lit 0], [lit 0, lit 1]] \<and>
   Dcompose2_Point3 (Point3 (lit 1) (lit 2) (lit 3)) (Point3 (lit 4) (lit 5) (lit 6))
     = [[lit 1, lit 0, lit 0], [lit 0, lit 1, lit 0], [lit 0, lit 0, lit 1]] \<and>
   snd (compose_H (Point2 (lit 1) (lit 2)) (Point2 (lit 3) (lit 4)) (Some 0) (Some 1) (\<lambda>a. [])) 0
     = [[lit 1, lit 0], [lit 0, lit 1]] \<and>
   snd (between_H (Point2 (lit 1) (lit 2)) (Point2 (lit 3) (lit 4)) (Some 0) (Some 1) (\<lambda>a. [])) 0
     = [[dneg (lit 1), dneg (lit 0)], [dneg (lit 0), dneg (lit 1)]] \<and>
   snd (between_H (Point2 (lit 1) (lit 2)) (Point2 (lit 3) (lit 4)) (Some 0) (Some 1) (\<lambda>a. [])) 1
     = [[lit 1, lit 0], [lit 0, lit 1]]"
  using
    Jacobians_of_compose_and_between [of "Point2 (lit 1) (lit 2)" "Point2 (lit 3) (lit 4)"
      "Point3 (lit 1) (lit 2) (lit 3)" "Point3 (lit 4) (lit 5) (lit 6)" "Point2 (lit 3) (lit 4)"
      0 "Some 1" "\<lambda>a. []" "Some 0" 1]
  by (simp add: Matrix_uminus_def)

text \<open>
  Claim C7: \<^verbatim>\<open>compose\<close> and \<^verbatim>\<open>between\<close> with Jacobian slots return the point that the
  plain functions return, whatever slots are passed; a matrix of the caller that is not
  passed as a slot keeps its content, a matrix passed as a slot is overwritten with the
  Jacobian, and with no slot at all the store is unchanged.
\<close>

theorem Jacobian_slots_frame:
  "fst (compose_H p1 p2 H1 H2 st) = compose p1 p2 \<and>
   fst (between_H p1 p2 H1 H2 st) = between p1 p2 \<and>
   (H1 \<noteq> Some a \<and> H2 \<noteq> Some a \<longrightarrow>
      snd (compose_H p1 p2 H1 H2 st) a = st a \<and> snd (between_H p1 p2 H1 H2 st) a = st a) \<and>
   (H1 = Some a \<or> H2 = Some a \<longrightarrow>
      snd (compose_H p1 p2 H1 H2 st) a = eye 2 \<and>
      snd (between_H p1 p2 H1 H2 st) a =
        (if H2 = Some a then eye 2 else Matrix_uminus (eye 2))) \<and>
   snd (compose_H p1 p2 None None st) = st \<and>
   snd (between_H p1 p2 None None st) = st"
  by (auto simp: compose_H_def between_H_def assign_slot_def split: option.splits)

theorem Jacobian_slots_frame_witness:
  "fst (compose_H (Point2 (lit 1) (lit 2)) (Point2 (lit 3) (lit 4)) (Some 0) None (\<lambda>a. []))
     = Point2 (lit 4) (lit 6) \<and>
   fst (compose_H (Point2 (lit 1) (lit 2)) (Point2 (lit 3) (lit 4)) None None (\<lambda>a. []))
     = Point2 (lit 4) (lit 6) \<and>
   snd (compose_H (Point2 (lit 1) (lit 2)) (Point2 (lit 3) (lit 4)) (Some 0) None (\<lambda>a. [])) 0
     = eye 2 \<and>
   snd (compose_H (Point2 (lit 1) (lit 2)) (Point2 (lit 3) (lit 4)) (Some 0) None (\<lambda>a. [])) 1
     = [] \<and>
   snd (between_H (Point2 (lit 1) (lit 2)) (Point2 (lit 3) (lit 4)) None (Some 1) (\<lambda>a. [])) 0
     = [] \<and>
   snd (between_H (Point2 (lit 1) (lit 2)) (Point2 (lit 3) (lit 4)) None (Some 1) (\<lambda>a. [])) 1
     = eye 2"
proof -
  have c: "compose (Point2 (lit 1) (lit 2)) (Point2 (lit 3) (lit 4)) = Point2 (lit 4) (lit 6)"
    by (simp add: compose_def Point2_compose_def Point2_plus_def dadd_lit)
  from c
    Jacobian_slots_frame [of "Point2 (lit 1) (lit 2)" "Point2 (lit 3) (lit 4)" "Some 0" None
      "\<lambda>a. []" 0]
    Jacobian_slots_frame [of "Point2 (lit 1) (lit 2)" "Point2 (lit 3) (lit 4)" "Some 0" None
      "\<lambda>a. []" 1]
    Jacobian_slots_frame [of "Point2 (lit 1) (lit 2)" "Point2 (lit 3) (lit 4)" None None
      "\<lambda>a. []" 0]
    Jacobian_slots_frame [of "Point2 (lit 1) (lit 2)" "Point2 (lit 3) (lit 4)" None "Some 1"
      "\<lambda>a. []" 0]
    Jacobian_slots_frame [of "Point2 (lit 1) (lit 2)" "Point2 (lit 3) (lit 4)" None "Some 1"
      "\<lambda>a. []" 1]
  show ?thesis by simp
qed

section \<open>Rounding in \<open>between\<close> and \<open>compose\<close>\<close>

lemma round53_54:
  assumes "2 ^ 53 \<le> k" and "k < 2 ^ 54"
  shows "round53 k = (if odd k \<and> odd (k div 2) then (k div 2 + 1) * 2 else (k div 2) * 2)"
proof -
  have "2 ^ 52 * 2 ^ 1 \<le> k" using assms(1) by simp
  moreover have "k < 2 ^ 53 * 2 ^ 1" using assms(2) by simp
  ultimately have e: "excess_bits k = 1" by (rule excess_bits_eq)
  have "k mod 2 = 0 \<or> k mod 2 = 1" by auto
  then show ?thesis
    unfolding round53_def Let_def e by (auto simp: odd_iff_mod_2_eq_one)
qed

lemma dadd_lit_round:
  "dadd (lit a) (lit b) =
     (if 2 ^ 1024 \<le> round53 (a + b) then Infty False else lit (round53 (a + b)))"
proof -
  have "dadd (lit a) (lit b) = rounded False ((a + b) * 2 ^ 1074)"
    by (simp only: lit_def dadd.simps simp_thms if_True distrib_right)
  then show ?thesis by (simp only: rounded_lit lit_def)
qed

lemma dadd_dneg_lit_round:
  assumes "a < b"
  shows "dadd (dneg (lit a)) (lit b) =
     (if 2 ^ 1024 \<le> round53 (b - a) then Infty False else lit (round53 (b - a)))"
proof -
  have "a * 2 ^ 1074 < b * 2 ^ 1074" using assms by simp
  then have "dadd (dneg (lit a)) (lit b) = rounded False (b * 2 ^ 1074 - a * 2 ^ 1074)"
    by (simp add: lit_def)
  also have "\<dots> = rounded False ((b - a) * 2 ^ 1074)"
    by (simp only: diff_mult_distrib)
  finally show ?thesis by (simp only: rounded_lit lit_def)
qed

lemma deq_lit: "deq (lit a) (lit b) = (a = b)"
  by (simp add: lit_def sval_def)

lemma dsub_lit_dneg_lit: "dsub (lit a) (dneg (lit b)) = dadd (lit a) (lit b)"
  by (simp add: dsub_def lit_def)

lemma dsub_lit_0: "dsub (lit 0) (lit 0) = lit 0"
  by (simp add: dsub_def lit_def)

theorem compose_between_rounds_counterexample:
  "Point2_compose (Point2 (dneg (lit 1)) (lit 0))
       (between (Point2 (dneg (lit 1)) (lit 0)) (Point2 (lit (2 ^ 53)) (lit 0)))
     = Point2 (lit (2 ^ 53 - 1)) (lit 0) \<and>
   \<not> deq (lit (2 ^ 53 - 1)) (lit (2 ^ 53)) \<and>
   \<not> Point2_eq (Point2 (lit (2 ^ 53 - 1)) (lit 0)) (Point2 (lit (2 ^ 53)) (lit 0))"
proof -
  have r1: "round53 (2 ^ 53 + 1) = 2 ^ 53"
    by (subst round53_54) simp_all
  have r2: "round53 (2 ^ 53 - 1) = 2 ^ 53 - 1"
    by (rule round53_small) simp
  have b: "between (Point2 (dneg (lit 1)) (lit 0)) (Point2 (lit (2 ^ 53)) (lit 0))
      = Point2 (lit (2 ^ 53)) (lit 0)"
    using r1 by (simp add: between_def Point2_minus_def dsub_lit_dneg_lit dsub_lit_0 dadd_lit_round)
  have c: "Point2_compose (Point2 (dneg (lit 1)) (lit 0)) (Point2 (lit (2 ^ 53)) (lit 0))
      = Point2 (lit (2 ^ 53 - 1)) (lit 0)"
    using r2 by (simp add: Point2_compose_def Point2_plus_def dadd_dneg_lit_round dadd_lit)
  show ?thesis
    unfolding b c by (simp add: Point2_eq_def deq_lit)
qed

lemma dadd_dsub_cancel:
  assumes "finite_double q" and "exact_sum q (dneg p)"
  shows "deq (dadd p (dsub q p)) q"
proof -
  from assms(2) obtain t k s j where q: "q = Fin t k" and p: "p = Fin s j"
    by (cases q; cases p) auto
  define d where "d = dadd q (dneg p)"
  from dadd_exact_units [OF assms(2)]
  have fd: "finite_double d" and ud: "units d = units q + units (dneg p)"
    by (simp_all add: d_def)
  from fd obtain u m where d: "d = Fin u m" by (cases d) auto
  from ud have um: "sval u m = sval t k - sval s j" by (simp add: d q p sval_def)
  have "nat \<bar>sval s j + sval u m\<bar> = k" unfolding um by (simp add: sval_def)
  with assms(1) have ex: "exact_sum p d" by (simp add: p d q)
  from dadd_exact_units [OF ex]
  have f2: "finite_double (dadd p d)" and u2: "units (dadd p d) = units p + units d"
    by simp_all
  from f2 obtain w n where r: "dadd p d = Fin w n" by (cases "dadd p d") auto
  have "units (dadd p d) = sval w n" by (simp only: r units.simps)
  moreover have "units p = sval s j" by (simp only: p units.simps)
  moreover have "units d = sval u m" by (simp only: d units.simps)
  ultimately have "sval w n = sval t k" using u2 um by simp
  then have "deq (Fin w n) q" by (simp add: q)
  then have "deq (dadd p d) q" by (simp only: r)
  then show ?thesis by (simp add: dsub_def d_def)
qed

text \<open>
  Claim C8, as the code has it: \<^verbatim>\<open>between(p, q)\<close> is \<^verbatim>\<open>q - p\<close> for all points. The
  subtraction rounds, so \<^verbatim>\<open>p.compose(between(p, q)) == q\<close> holds when \<open>q\<close> is finite and
  both coordinate differences \<open>q - p\<close> are exact, coordinate by coordinate under the
  comparison \<^verbatim>\<open>==\<close> of doubles and under \<^verbatim>\<open>Point2::operator==\<close>.
\<close>

theorem between_is_difference:
  "between p q = Point2_minus q p \<and>
   (finite_Point2 q \<and> exact_Point2 q (Point2_uminus p) \<longrightarrow>
      deq (Point2_x (Point2_compose p (between p q))) (Point2_x q) \<and>
      deq (Point2_y (Point2_compose p (between p q))) (Point2_y q) \<and>
      Point2_eq (Point2_compose p (between p q)) q)"
proof (intro conjI impI)
  show "between p q = Point2_minus q p" by (simp add: between_def)
next
  assume h: "finite_Point2 q \<and> exact_Point2 q (Point2_uminus p)"
  then have fx: "finite_double (Point2_x q)" and fy: "finite_double (Point2_y q)"
    and ex: "exact_sum (Point2_x q) (dneg (Point2_x p))"
    and ey: "exact_sum (Point2_y q) (dneg (Point2_y p))"
    by (simp_all add: finite_Point2_def exact_Point2_def Point2_uminus_def)
  show x: "deq (Point2_x (Point2_compose p (between p q))) (Point2_x q)"
    using dadd_dsub_cancel [OF fx ex]
    by (simp add: Point2_compose_def Point2_plus_def between_def Point2_minus_def)
  show y: "deq (Point2_y (Point2_compose p (between p q))) (Point2_y q)"
    using dadd_dsub_cancel [OF fy ey]
    by (simp add: Point2_compose_def Point2_plus_def between_def Point2_minus_def)
  from fy have "Point2_y q \<noteq> NaN" by auto
  with x show "Point2_eq (Point2_compose p (between p q)) q"
    by (simp add: Point2_eq_def deq_self)
qed

lemma dsub_lit:
  assumes "b \<le> a" and "a < 2 ^ 53"
  shows "dsub (lit a) (lit b) = lit (a - b)"
proof (cases "a = b")
  case True
  then show ?thesis by (simp add: dsub_def lit_def)
next
  case False
  with assms(1) have "b * 2 ^ 1074 < a * 2 ^ 1074" by simp
  then have "dsub (lit a) (lit b) = rounded False (a * 2 ^ 1074 - b * 2 ^ 1074)"
    by (simp add: dsub_def lit_def)
  also have "\<dots> = rounded False ((a - b) * 2 ^ 1074)"
    by (simp only: diff_mult_distrib)
  also have "\<dots> = Fin False ((a - b) * 2 ^ 1074)"
    using assms(2) by (intro rounded_exact representable_scaled) simp_all
  finally show ?thesis by (simp only: lit_def)
qed

lemma exact_sum_lit_dneg:
  assumes "b \<le> a" and "a < 2 ^ 53"
  shows "exact_sum (lit a) (dneg (lit b))"
proof -
  have "int (b * 2 ^ 1074) \<le> int (a * 2 ^ 1074)" using assms(1) by simp
  then have "nat \<bar>sval False (a * 2 ^ 1074) + sval True (b * 2 ^ 1074)\<bar>
      = a * 2 ^ 1074 - b * 2 ^ 1074"
    unfolding sval_def by (simp add: nat_diff_distrib)
  also have "\<dots> = (a - b) * 2 ^ 1074" by (simp only: diff_mult_distrib)
  finally have "nat \<bar>sval False (a * 2 ^ 1074) + sval True (b * 2 ^ 1074)\<bar> = (a - b) * 2 ^ 1074" .
  moreover have "representable ((a - b) * 2 ^ 1074)"
    using assms(2) by (intro representable_scaled) simp_all
  ultimately show ?thesis by (simp only: lit_def dneg.simps exact_sum.simps simp_thms)
qed

theorem between_is_difference_witness:
  "finite_Point2 (Point2 (lit 4) (lit 6)) \<and>
   exact_Point2 (Point2 (lit 4) (lit 6)) (Point2_uminus (Point2 (lit 1) (lit 2))) \<and>
   between (Point2 (lit 1) (lit 2)) (Point2 (lit 4) (lit 6)) = Point2 (lit 3) (lit 4) \<and>
   Point2_compose (Point2 (lit 1) (lit 2)) (Point2 (lit 3) (lit 4)) = Point2 (lit 4) (lit 6) \<and>
   Point2_eq
     (Point2_compose (Point2 (lit 1) (lit 2)) (between (Point2 (lit 1) (lit 2)) (Point2 (lit 4) (lit 6))))
     (Point2 (lit 4) (lit 6))"
proof -
  have f: "finite_Point2 (Point2 (lit 4) (lit 6))"
    by (simp add: finite_Point2_def finite_double_lit)
  have e: "exact_Point2 (Point2 (lit 4) (lit 6)) (Point2_uminus (Point2 (lit 1) (lit 2)))"
    by (simp add: exact_Point2_def Point2_uminus_def exact_sum_lit_dneg)
  have b: "between (Point2 (lit 1) (lit 2)) (Point2 (lit 4) (lit 6)) = Point2 (lit 3) (lit 4)"
    by (simp add: between_def Point2_minus_def dsub_lit)
  have c: "Point2_compose (Point2 (lit 1) (lit 2)) (Point2 (lit 3) (lit 4)) = Point2 (lit 4) (lit 6)"
    by (simp add: Point2_compose_def Point2_plus_def dadd_lit)
  from f e b c between_is_difference [of "Point2 (lit 1) (lit 2)" "Point2 (lit 4) (lit 6)"]
  show ?thesis by blast
qed

theorem compose_not_associative_counterexample:
  "Point2_compose (Point2_compose (Point2 (lit (2 ^ 53)) (lit 0)) (Point2 (lit 1) (lit 0)))
       (Point2 (lit 1) (lit 0))
     = Point2 (lit (2 ^ 53)) (lit 0) \<and>
   Point2_compose (Point2 (lit (2 ^ 53)) (lit 0))
       (Point2_compose (Point2 (lit 1) (lit 0)) (Point2 (lit 1) (lit 0)))
     = Point2 (lit (2 ^ 53 + 2)) (lit 0) \<and>
   \<not> deq (lit (2 ^ 53)) (lit (2 ^ 53 + 2)) \<and>
   \<not> Point2_eq (Point2 (lit (2 ^ 53)) (lit 0)) (Point2 (lit (2 ^ 53 + 2)) (lit 0))"
proof -
  have r1: "round53 (2 ^ 53 + 1) = 2 ^ 53"
    by (subst round53_54) simp_all
  have r2: "round53 (2 ^ 53 + 2) = 2 ^ 53 + 2"
    by (subst round53_54) simp_all
  have z: "dadd (lit 0) (lit 0) = lit 0" by (simp add: dadd_lit)
  have a: "dadd (lit (2 ^ 53)) (lit 1) = lit (2 ^ 53)"
    using r1 by (simp add: dadd_lit_round)
  have "(1::nat) + 1 < 2 ^ 53" by simp
  then have "dadd (lit 1) (lit 1) = lit (1 + 1)" by (rule dadd_lit)
  moreover have "(1::nat) + 1 = 2" by simp
  ultimately have b: "dadd (lit 1) (lit 1) = lit 2" by (simp only:)
  have c: "dadd (lit (2 ^ 53)) (lit 2) = lit (2 ^ 53 + 2)"
    using r2 by (simp add: dadd_lit_round)
  show ?thesis
    by (simp only: Point2_compose_def Point2_plus_def Point2.sel a b c z Point2_eq_def deq_lit)
      simp
qed

text \<open>
  Claim C9, as the code has it: \<^verbatim>\<open>compose\<close> is commutative for all points of the three
  classes. It is associative when none of the four additions of a coordinate rounds; in
  general floating-point addition is not associative. Equality is identity of the
  coordinates.
\<close>

theorem compose_commutes:
  "Point2_compose p2 q2 = Point2_compose q2 p2 \<and>
   Point3_compose p3 q3 = Point3_compose q3 p3 \<and>
   StereoPoint2_compose s t = StereoPoint2_compose t s \<and>
   (exact_Point2 p2 q2 \<and> exact_Point2 (Point2_compose p2 q2) r2 \<and>
    exact_Point2 q2 r2 \<and> exact_Point2 p2 (Point2_compose q2 r2) \<longrightarrow>
      Point2_compose (Point2_compose p2 q2) r2 = Point2_compose p2 (Point2_compose q2 r2)) \<and>
   (exact_Point3 p3 q3 \<and> exact_Point3 (Point3_compose p3 q3) r3 \<and>
    exact_Point3 q3 r3 \<and> exact_Point3 p3 (Point3_compose q3 r3) \<longrightarrow>
      Point3_compose (Point3_compose p3 q3) r3 = Point3_compose p3 (Point3_compose q3 r3)) \<and>
   (exact_StereoPoint2 s t \<and> exact_StereoPoint2 (StereoPoint2_compose s t) u \<and>
    exact_StereoPoint2 t u \<and> exact_StereoPoint2 s (StereoPoint2_compose t u) \<longrightarrow>
      StereoPoint2_compose (StereoPoint2_compose s t) u
        = StereoPoint2_compose s (StereoPoint2_compose t u))"
proof (intro conjI impI)
  show "Point2_compose p2 q2 = Point2_compose q2 p2"
    by (simp add: Point2_compose_def Point2_plus_def dadd_commute)
  show "Point3_compose p3 q3 = Point3_compose q3 p3"
    by (simp add: Point3_compose_def Point3_plus_def dadd_commute)
  show "StereoPoint2_compose s t = StereoPoint2_compose t s"
    by (simp add: StereoPoint2_compose_def StereoPoint2_plus_def dadd_commute)
next
  assume "exact_Point2 p2 q2 \<and> exact_Point2 (Point2_compose p2 q2) r2 \<and>
    exact_Point2 q2 r2 \<and> exact_Point2 p2 (Point2_compose q2 r2)"
  then show "Point2_compose (Point2_compose p2 q2) r2 = Point2_compose p2 (Point2_compose q2 r2)"
    by (simp add: exact_Point2_def Point2_compose_def Point2_plus_def dadd_assoc_exact)
next
  assume "exact_Point3 p3 q3 \<and> exact_Point3 (Point3_compose p3 q3) r3 \<and>
    exact_Point3 q3 r3 \<and> exact_Point3 p3 (Point3_compose q3 r3)"
  then show "Point3_compose (Point3_compose p3 q3) r3 = Point3_compose p3 (Point3_compose q3 r3)"
    by (simp add: exact_Point3_def Point3_compose_def Point3_plus_def dadd_assoc_exact)
next
  assume "exact_StereoPoint2 s t \<and> exact_StereoPoint2 (StereoPoint2_compose s t) u \<and>
    exact_StereoPoint2 t u \<and> exact_StereoPoint2 s (StereoPoint2_compose t u)"
  then show "StereoPoint2_compose (StereoPoint2_compose s t) u
      = StereoPoint2_compose s (StereoPoint2_compose t u)"
    by (simp add: exact_StereoPoint2_def StereoPoint2_compose_def StereoPoint2_plus_def
        dadd_assoc_exact)
qed

theorem compose_commutes_witness:
  "exact_Point2 (Point2 (lit 1) (lit 2)) (Point2 (lit 3) (lit 4)) \<and>
   exact_Point2 (Point2_compose (Point2 (lit 1) (lit 2)) (Point2 (lit 3) (lit 4)))
     (Point2 (lit 5) (lit 6)) \<and>
   exact_Point2 (Point2 (lit 3) (lit 4)) (Point2 (lit 5) (lit 6)) \<and>
   exact_Point2 (Point2 (lit 1) (lit 2))
     (Point2_compose (Point2 (lit 3) (lit 4)) (Point2 (lit 5) (lit 6))) \<and>
   Point2_compose (Point2 (lit 1) (lit 2))
       (Point2_compose (Point2 (lit 3) (lit 4)) (Point2 (lit 5) (lit 6)))
     = Point2 (lit 9) (lit 12) \<and>
   Point2_compose (Point2_compose (Point2 (lit 1) (lit 2)) (Point2 (lit 3) (lit 4)))
       (Point2 (lit 5) (lit 6))
     = Point2 (lit 9) (lit 12) \<and>
   exact_Point3 (Point3 (lit 1) (lit 2) (lit 3)) (Point3 (lit 4) (lit 5) (lit 6)) \<and>
   exact_Point3 (Point3_compose (Point3 (lit 1) (lit 2) (lit 3)) (Point3 (lit 4) (lit 5) (lit 6)))
     (Point3 (lit 7) (lit 8) (lit 9)) \<and>
   exact_Point3 (Point3 (lit 4) (lit 5) (lit 6)) (Point3 (lit 7) (lit 8) (lit 9)) \<and>
   exact_Point3 (Point3 (lit 1) (lit 2) (lit 3))
     (Point3_compose (Point3 (lit 4) (lit 5) (lit 6)) (Point3 (lit 7) (lit 8) (lit 9))) \<and>
   Point3_compose (Point3_compose (Point3 (lit 1) (lit 2) (lit 3)) (Point3 (lit 4) (lit 5) (lit 6)))
       (Point3 (lit 7) (lit 8) (lit 9))
     = Point3 (lit 12) (lit 15) (lit 18) \<and>
   exact_StereoPoint2 (StereoPoint2 (lit 10) (lit 8) (lit 5)) (StereoPoint2 (lit 1) (lit 2) (lit 3)) \<and>
   exact_StereoPoint2
     (StereoPoint2_compose (StereoPoint2 (lit 10) (lit 8) (lit 5))
        (StereoPoint2 (lit 1) (lit 2) (lit 3)))
     (StereoPoint2 (lit 4) (lit 5) (lit 6)) \<and>
   exact_StereoPoint2 (StereoPoint2 (lit 1) (lit 2) (lit 3)) (StereoPoint2 (lit 4) (lit 5) (lit 6)) \<and>
   exact_StereoPoint2 (StereoPoint2 (lit 10) (lit 8) (lit 5))
     (StereoPoint2_compose (StereoPoint2 (lit 1) (lit 2) (lit 3))
        (StereoPoint2 (lit 4) (lit 5) (lit 6))) \<and>
   StereoPoint2_compose
       (StereoPoint2_compose (StereoPoint2 (lit 10) (lit 8) (lit 5))
          (StereoPoint2 (lit 1) (lit 2) (lit 3)))
       (StereoPoint2 (lit 4) (lit 5) (lit 6))
     = StereoPoint2 (lit 15) (lit 15) (lit 14) \<and>
   Point2_compose (Point2 (lit 3) (lit 4)) (Point2 (lit 1) (lit 2)) = Point2 (lit 4) (lit 6)"
proof -
  have a2: "Point2_compose (Point2 (lit 1) (lit 2)) (Point2 (lit 3) (lit 4)) = Point2 (lit 4) (lit 6)"
    by (simp add: Point2_compose_def Point2_plus_def dadd_lit)
  have b2: "Point2_compose (Point2 (lit 3) (lit 4)) (Point2 (lit 5) (lit 6)) = Point2 (lit 8) (lit 10)"
    by (simp add: Point2_compose_def Point2_plus_def dadd_lit)
  have c2: "Point2_compose (Point2 (lit 1) (lit 2)) (Point2 (lit 8) (lit 10)) = Point2 (lit 9) (lit 12)"
    by (simp add: Point2_compose_def Point2_plus_def dadd_lit)
  have e2: "exact_Point2 (Point2 (lit 1) (lit 2)) (Point2 (lit 3) (lit 4))"
    "exact_Point2 (Point2 (lit 4) (lit 6)) (Point2 (lit 5) (lit 6))"
    "exact_Point2 (Point2 (lit 3) (lit 4)) (Point2 (lit 5) (lit 6))"
    "exact_Point2 (Point2 (lit 1) (lit 2)) (Point2 (lit 8) (lit 10))"
    by (simp_all add: exact_Point2_def exact_sum_lit)
  have a3: "Point3_compose (Point3 (lit 1) (lit 2) (lit 3)) (Point3 (lit 4) (lit 5) (lit 6))
      = Point3 (lit 5) (lit 7) (lit 9)"
    by (simp add: Point3_compose_def Point3_plus_def dadd_lit)
  have b3: "Point3_compose (Point3 (lit 4) (lit 5) (lit 6)) (Point3 (lit 7) (lit 8) (lit 9))
      = Point3 (lit 11) (lit 13) (lit 15)"
    by (simp add: Point3_compose_def Point3_plus_def dadd_lit)
  have c3: "Point3_compose (Point3 (lit 5) (lit 7) (lit 9)) (Point3 (lit 7) (lit 8) (lit 9))
      = Point3 (lit 12) (lit 15) (lit 18)"
    by (simp add: Point3_compose_def Point3_plus_def dadd_lit)
  have e3: "exact_Point3 (Point3 (lit 1) (lit 2) (lit 3)) (Point3 (lit 4) (lit 5) (lit 6))"
    "exact_Point3 (Point3 (lit 5) (lit 7) (lit 9)) (Point3 (lit 7) (lit 8) (lit 9))"
    "exact_Point3 (Point3 (lit 4) (lit 5) (lit 6)) (Point3 (lit 7) (lit 8) (lit 9))"
    "exact_Point3 (Point3 (lit 1) (lit 2) (lit 3)) (Point3 (lit 11) (lit 13) (lit 15))"
    by (simp_all add: exact_Point3_def exact_sum_lit)
  have a4: "StereoPoint2_compose (StereoPoint2 (lit 10) (lit 8) (lit 5))
        (StereoPoint2 (lit 1) (lit 2) (lit 3))
      = StereoPoint2 (lit 11) (lit 10) (lit 8)"
    by (simp add: StereoPoint2_compose_def StereoPoint2_plus_def dadd_lit)
  have b4: "StereoPoint2_compose (StereoPoint2 (lit 1) (lit 2) (lit 3))
        (StereoPoint2 (lit 4) (lit 5) (lit 6))
      = StereoPoint2 (lit 5) (lit 7) (lit 9)"
    by (simp add: StereoPoint2_compose_def StereoPoint2_plus_def dadd_lit)
  have c4: "StereoPoint2_compose (StereoPoint2 (lit 11) (lit 10) (lit 8))
        (StereoPoint2 (lit 4) (lit 5) (lit 6))
      = StereoPoint2 (lit 15) (lit 15) (lit 14)"
    by (simp add: StereoPoint2_compose_def StereoPoint2_plus_def dadd_lit)
  have e4: "exact_StereoPoint2 (StereoPoint2 (lit 10) (lit 8) (lit 5))
        (StereoPoint2 (lit 1) (lit 2) (lit 3))"
    "exact_StereoPoint2 (StereoPoint2 (lit 11) (lit 10) (lit 8))
        (StereoPoint2 (lit 4) (lit 5) (lit 6))"
    "exact_StereoPoint2 (StereoPoint2 (lit 1) (lit 2) (lit 3))
        (StereoPoint2 (lit 4) (lit 5) (lit 6))"
    "exact_StereoPoint2 (StereoPoint2 (lit 10) (lit 8) (lit 5))
        (StereoPoint2 (lit 5) (lit 7) (lit 9))"
    by (simp_all add: exact_StereoPoint2_def exact_sum_lit)
  note t = compose_commutes [of "Point2 (lit 1) (lit 2)" "Point2 (lit 3) (lit 4)"
      "Point3 (lit 1) (lit 2) (lit 3)" "Point3 (lit 4) (lit 5) (lit 6)"
      "StereoPoint2 (lit 10) (lit 8) (lit 5)" "StereoPoint2 (lit 1) (lit 2) (lit 3)"
      "Point2 (lit 5) (lit 6)" "Point3 (lit 7) (lit 8) (lit 9)"
      "StereoPoint2 (lit 4) (lit 5) (lit 6)", unfolded a2 b2 a3 b3 a4 b4]
  from t e2 e3 e4 a2 c2 c3 c4 show ?thesis
    unfolding a2 b2 a3 b3 a4 b4 by metis
qed

end
